theory Spec2Isabelle
  imports Complex_Main "HOL-Library.Sublist"
begin

section \<open>Calendar dates and timestamps\<close>

text \<open>
  The dashboard works on day-granular dates in two representations. The date-range widget
  hands the script a pair of \<^verbatim>\<open>datetime.date\<close> objects (year, month, day); the column
  \<^verbatim>\<open>Fecha\<close> holds pandas timestamps at midnight, which are integers counting from an
  epoch. A timestamp is modelled as the proleptic Gregorian day number (the ordinal of
  Python's \<^verbatim>\<open>date.toordinal\<close>, day 1 being 0001-01-01); the unit and the epoch of the
  pandas integer do not matter for any comparison or difference of days. The conversions
  follow the algorithms of Python's \<^verbatim>\<open>datetime\<close> module (\<^verbatim>\<open>_ymd2ord\<close>, \<^verbatim>\<open>_ord2ymd\<close>),
  whose integer division rounds towards minus infinity as \<open>div\<close> on \<^typ>\<open>int\<close> does.
\<close>

record date =
  year :: int
  month :: int
  day :: int

type_synonym timestamp = int

definition is_leap :: "int \<Rightarrow> bool" where
  "is_leap y \<longleftrightarrow> y mod 4 = 0 \<and> (y mod 100 \<noteq> 0 \<or> y mod 400 = 0)"

definition DAYS_IN_MONTH :: "int list" where
  "DAYS_IN_MONTH = [31, 28, 31, 30, 31, 30, 31, 31, 30, 31, 30, 31]"

definition DAYS_BEFORE_MONTH :: "int list" where
  "DAYS_BEFORE_MONTH = [0, 31, 59, 90, 120, 151, 181, 212, 243, 273, 304, 334]"

definition days_in_month :: "int \<Rightarrow> int \<Rightarrow> int" where
  "days_in_month y m =
     (if m = 2 \<and> is_leap y then 29 else DAYS_IN_MONTH ! nat (m - 1))"

definition days_before_year :: "int \<Rightarrow> int" where
  "days_before_year y = (let y1 = y - 1 in y1 * 365 + y1 div 4 - y1 div 100 + y1 div 400)"

definition days_before_month :: "int \<Rightarrow> int \<Rightarrow> int" where
  "days_before_month y m =
     DAYS_BEFORE_MONTH ! nat (m - 1) + (if m > 2 \<and> is_leap y then 1 else 0)"

definition ymd2ord :: "int \<Rightarrow> int \<Rightarrow> int \<Rightarrow> int" where
  "ymd2ord y m d = days_before_year y + days_before_month y m + d"

text \<open>
  The month and the day of the \<open>n\<close>-th day (from 0) of a year: the estimate
  \<open>(n + 50) div 32\<close> is the month or one more, and is corrected when it is too large.
\<close>

definition find_month_day :: "bool \<Rightarrow> int \<Rightarrow> int \<times> int" where
  "find_month_day leapyear n =
     (let m = (n + 50) div 32;
          preceding = DAYS_BEFORE_MONTH ! nat (m - 1) + (if m > 2 \<and> leapyear then 1 else 0)
      in if preceding > n
         then (let m' = m - 1;
                   preceding' = preceding -
                     (DAYS_IN_MONTH ! nat (m' - 1) + (if m' = 2 \<and> leapyear then 1 else 0))
               in (m', n - preceding' + 1))
         else (m, n - preceding + 1))"

definition ord2ymd :: "int \<Rightarrow> date" where
  "ord2ymd n0 =
     (let n = n0 - 1;
          n400 = n div 146097; n = n mod 146097;
          y = n400 * 400 + 1;
          n100 = n div 36524; n = n mod 36524;
          n4 = n div 1461; n = n mod 1461;
          n1 = n div 365; n = n mod 365;
          y = y + n100 * 100 + n4 * 4 + n1
      in if n1 = 4 \<or> n100 = 4 then \<lparr>year = y - 1, month = 12, day = 31\<rparr>
         else
           let leapyear = (n1 = 3 \<and> (n4 \<noteq> 24 \<or> n100 = 3));
               (m, d) = find_month_day leapyear n
           in \<lparr>year = y, month = m, day = d\<rparr>)"

text \<open>
  A \<^verbatim>\<open>datetime.date\<close> object always holds a date of the calendar: its constructor refuses
  anything else.
\<close>

definition valid_date :: "date \<Rightarrow> bool" where
  "valid_date dt \<longleftrightarrow> 1 \<le> month dt \<and> month dt \<le> 12 \<and> 1 \<le> day dt
      \<and> day dt \<le> days_in_month (year dt) (month dt)"

text \<open>Dates compare as the tuples (year, month, day).\<close>

definition date_le :: "date \<Rightarrow> date \<Rightarrow> bool" where
  "date_le a b \<longleftrightarrow> year a < year b \<or> (year a = year b \<and>
      (month a < month b \<or> (month a = month b \<and> day a \<le> day b)))"

definition date_lt :: "date \<Rightarrow> date \<Rightarrow> bool" where
  "date_lt a b \<longleftrightarrow> year a < year b \<or> (year a = year b \<and>
      (month a < month b \<or> (month a = month b \<and> day a < day b)))"

text \<open>
  \<^verbatim>\<open>pd.to_datetime\<close> of a date is the timestamp of its midnight, the accessor
  \<^verbatim>\<open>.dt.date\<close> is the way back. Subtracting \<^verbatim>\<open>pd.Timedelta(days=k)\<close> subtracts \<open>k\<close> from
  the day number. Subtracting \<^verbatim>\<open>pd.DateOffset(years=k)\<close> works on the calendar fields:
  the year goes back by \<open>k\<close>, the month stays, and the day is clipped to the length of
  that month (29 February becomes 28 February in a common year).
\<close>

definition to_datetime :: "date \<Rightarrow> timestamp" where
  "to_datetime dt = ymd2ord (year dt) (month dt) (day dt)"

definition dt_date :: "timestamp \<Rightarrow> date" where
  "dt_date ts = ord2ymd ts"

definition sub_Timedelta_days :: "timestamp \<Rightarrow> int \<Rightarrow> timestamp" where
  "sub_Timedelta_days ts k = ts - k"

definition sub_DateOffset_years :: "timestamp \<Rightarrow> int \<Rightarrow> timestamp" where
  "sub_DateOffset_years ts k =
     (let dt = dt_date ts;
          y = year dt - k;
          d = min (day dt) (days_in_month y (month dt))
      in to_datetime \<lparr>year = y, month = month dt, day = d\<rparr>)"

section \<open>Numbers, missing values and errors\<close>

text \<open>
  A scalar of the script is \<^verbatim>\<open>None\<close>, a number or NaN. Numbers are modelled as reals:
  the value a float holds, with exact arithmetic in place of the rounding of each
  operation, and no infinities. An operation that Python refuses raises the error as a
  value.
\<close>

datatype pyval = PyNone | Num real | NaN

datatype py_error = TypeError | ZeroDivisionError

definition isna :: "pyval \<Rightarrow> bool" where
  "isna v \<longleftrightarrow> v = PyNone \<or> v = NaN"

fun py_sub :: "pyval \<Rightarrow> pyval \<Rightarrow> py_error + pyval" where
  "py_sub PyNone _ = Inl TypeError"
| "py_sub _ PyNone = Inl TypeError"
| "py_sub (Num a) (Num b) = Inr (Num (a - b))"
| "py_sub _ _ = Inr NaN"

fun py_truediv :: "pyval \<Rightarrow> pyval \<Rightarrow> py_error + pyval" where
  "py_truediv PyNone _ = Inl TypeError"
| "py_truediv _ PyNone = Inl TypeError"
| "py_truediv (Num a) (Num b) = (if b = 0 then Inl ZeroDivisionError else Inr (Num (a / b)))"
| "py_truediv _ _ = Inr NaN"

fun py_mul :: "pyval \<Rightarrow> pyval \<Rightarrow> py_error + pyval" where
  "py_mul PyNone _ = Inl TypeError"
| "py_mul _ PyNone = Inl TypeError"
| "py_mul (Num a) (Num b) = Inr (Num (a * b))"
| "py_mul _ _ = Inr NaN"

definition then_do :: "py_error + 'a \<Rightarrow> ('a \<Rightarrow> py_error + 'b) \<Rightarrow> py_error + 'b" where
  "then_do r f = (case r of Inl e \<Rightarrow> Inl e | Inr v \<Rightarrow> f v)"

section \<open>The utilities of the script\<close>

subsection \<open>The data\<close>

text \<open>
  A row of the data frame has the columns \<^verbatim>\<open>Fecha\<close>, \<^verbatim>\<open>Categoria\<close>, \<^verbatim>\<open>Region\<close> and
  \<^verbatim>\<open>Ventas\<close> (the accents of the column names are dropped here). A data frame is the list
  of its rows in row order; the position of a row stands for its index label.
\<close>

record venta =
  Fecha :: timestamp
  Categoria :: string
  Region :: string
  Ventas :: real

type_synonym dataframe = "venta list"

text \<open>
  \<^verbatim>\<open>round(2)\<close> of numpy scales by 100, rounds to the nearest integer with ties to the
  even one, and scales back.
\<close>

definition rint :: "real \<Rightarrow> int" where
  "rint x = (let f = \<lfloor>x\<rfloor>; r = x - of_int f
             in if r < 1 / 2 then f else if r > 1 / 2 then f + 1
                else if even f then f else f + 1)"

definition round2 :: "real \<Rightarrow> real" where
  "round2 x = of_int (rint (x * 100)) / 100"

text \<open>
  \<^verbatim>\<open>get_data\<close> seeds the generator and draws four arrays of length \<open>n\<close>: the dates
  (a choice among the days of the range), the categories, the regions and the gamma
  variates. The generator itself is not modelled: the drawn arrays are the arguments,
  and the frame is built from them as the source builds it, the amounts rounded to two
  decimals. A gamma variate is never negative.
\<close>

definition date_range :: "date \<Rightarrow> date \<Rightarrow> timestamp list" where
  "date_range a b = [to_datetime a..to_datetime b]"

definition get_data :: "timestamp list \<Rightarrow> string list \<Rightarrow> string list \<Rightarrow> real list \<Rightarrow> dataframe" where
  "get_data fechas cats regs gammas =
     map (\<lambda>(f, c, r, g). \<lparr>Fecha = f, Categoria = c, Region = r, Ventas = round2 g\<rparr>)
       (zip fechas (zip cats (zip regs gammas)))"

subsection \<open>Formatting money\<close>

text \<open>
  Python's format specification \<^verbatim>\<open>,.Nf\<close> writes a number with \<open>N\<close> decimals, rounding the
  exact value to the nearest and ties to even, the integer digits in groups of three.
  The formatter below takes the two separators as arguments; Python's are the comma
  for the groups and the point for the decimals.
\<close>

definition digit_chr :: "nat \<Rightarrow> char" where
  "digit_chr d = ''0123456789'' ! d"

fun nat_digits :: "nat \<Rightarrow> string" where
  "nat_digits n = (if n < 10 then [digit_chr n] else nat_digits (n div 10) @ [digit_chr (n mod 10)])"

fun group3 :: "char \<Rightarrow> string \<Rightarrow> string" where
  "group3 sep ds =
     (if length ds \<le> 3 then ds
      else group3 sep (take (length ds - 3) ds) @ sep # drop (length ds - 3) ds)"

declare nat_digits.simps [simp del] group3.simps [simp del]

definition zero_pad :: "nat \<Rightarrow> string \<Rightarrow> string" where
  "zero_pad w ds = replicate (w - length ds) CHR ''0'' @ ds"

definition format_f :: "char \<Rightarrow> char \<Rightarrow> nat \<Rightarrow> real \<Rightarrow> string" where
  "format_f gsep dsep dec x =
     (let scaled = nat (rint (\<bar>x\<bar> * 10 ^ dec));
          whole = scaled div 10 ^ dec;
          frac = scaled mod 10 ^ dec
      in (if x < 0 then ''-'' else '''') @ group3 gsep (nat_digits whole)
         @ (if dec = 0 then '''' else dsep # zero_pad dec (nat_digits frac)))"

definition py_format :: "nat \<Rightarrow> real \<Rightarrow> string" where
  "py_format dec x = format_f CHR '','' CHR ''.'' dec x"

text \<open>\<^verbatim>\<open>str.replace\<close> with a pattern and a replacement of one character each.\<close>

definition replace :: "char \<Rightarrow> char \<Rightarrow> string \<Rightarrow> string" where
  "replace old new s = map (\<lambda>c. if c = old then new else c) s"

text \<open>The placeholder for a missing value is an em dash, here its three bytes in UTF-8.\<close>

definition em_dash :: string where
  "em_dash = [CHR 0xE2, CHR 0x80, CHR 0x94]"

definition fmt_moneda :: "pyval \<Rightarrow> nat \<Rightarrow> string" where
  "fmt_moneda x dec =
     (case x of
        Num v \<Rightarrow> ''$'' @ replace CHR ''X'' CHR ''.''
                    (replace CHR ''.'' CHR '','' (replace CHR '','' CHR ''X'' (py_format dec v)))
      | _ \<Rightarrow> em_dash)"

subsection \<open>The percentage change\<close>

definition delta_pct :: "pyval \<Rightarrow> pyval \<Rightarrow> py_error + pyval" where
  "delta_pct actual pasado =
     (if pasado = Num 0 \<or> pasado = PyNone \<or> isna pasado then Inr NaN
      else then_do (py_sub actual pasado) (\<lambda>diff.
           then_do (py_truediv diff pasado) (\<lambda>quot.
           py_mul quot (Num 100))))"

subsection \<open>The comparable period\<close>

text \<open>
  \<^verbatim>\<open>periodo_anterior\<close> resolves the bounds of the comparable period and selects the rows
  of the frame it is given whose timestamp lies between them. The bounds are a function
  of their own here, so that they can be spoken about.
\<close>

definition periodo_anterior_rango :: "date \<times> date \<Rightarrow> string \<Rightarrow> timestamp \<times> timestamp" where
  "periodo_anterior_rango rango modo =
     (let ini = to_datetime (fst rango); fin = to_datetime (snd rango)
      in if modo = ''dias''
         then (let dias = (fin - ini) + 1;
                   fin_prev = sub_Timedelta_days ini 1;
                   ini_prev = sub_Timedelta_days fin_prev (dias - 1)
               in (ini_prev, fin_prev))
         else (let ini_prev = sub_DateOffset_years ini 1;
                   fin_prev = sub_DateOffset_years fin 1
               in (ini_prev, fin_prev)))"

definition periodo_anterior :: "dataframe \<Rightarrow> date \<times> date \<Rightarrow> string \<Rightarrow> dataframe" where
  "periodo_anterior df rango modo =
     (case periodo_anterior_rango rango modo of
        (ini_prev, fin_prev) \<Rightarrow> filter (\<lambda>r. Fecha r \<ge> ini_prev \<and> Fecha r \<le> fin_prev) df)"

subsection \<open>Selecting and aggregating\<close>

text \<open>
  The main filter keeps the rows whose date lies in the range and whose region and
  category are among the selected ones. A sum over no rows is 0, a mean over no rows is
  NaN.
\<close>

definition filtrar :: "dataframe \<Rightarrow> date \<times> date \<Rightarrow> string list \<Rightarrow> string list \<Rightarrow> dataframe" where
  "filtrar df_full rango regiones categorias =
     filter (\<lambda>r. date_le (fst rango) (dt_date (Fecha r)) \<and>
                 date_le (dt_date (Fecha r)) (snd rango) \<and>
                 Region r \<in> set regiones \<and>
                 Categoria r \<in> set categorias) df_full"

definition Series_sum :: "real list \<Rightarrow> pyval" where
  "Series_sum xs = Num (sum_list xs)"

definition Series_mean :: "real list \<Rightarrow> pyval" where
  "Series_mean xs = (if xs = [] then NaN else Num (sum_list xs / real (length xs)))"

section \<open>The script\<close>

text \<open>
  The script runs top to bottom on its global variables. The state holds the variables
  the computation reads and writes: the cached frame, the four inputs of the sidebar,
  the filtered frame and the figures of the current and of the comparable period.
  \<^verbatim>\<open>prev_df\<close> is bound only when a comparison is made.
\<close>

datatype modo_comparacion = Periodo_anterior | Mismo_periodo_anio_anterior | Sin_comparacion

record session =
  df_full :: dataframe
  rango :: "date \<times> date"
  regiones :: "string list"
  categorias :: "string list"
  modo_comp :: modo_comparacion
  df :: dataframe
  tot :: pyval
  avg :: pyval
  cnt :: int
  prev_df :: "dataframe option"
  prev_tot :: pyval
  prev_avg :: pyval
  prev_cnt :: pyval

definition filtrado_principal :: "session \<Rightarrow> session" where
  "filtrado_principal s = s\<lparr>df := filtrar (df_full s) (rango s) (regiones s) (categorias s)\<rparr>"

definition kpis_comparacion :: "session \<Rightarrow> session" where
  "kpis_comparacion s =
     (let s = s\<lparr>tot := Series_sum (map Ventas (df s)),
                avg := Series_mean (map Ventas (df s)),
                cnt := int (length (df s))\<rparr>
      in if modo_comp s \<noteq> Sin_comparacion
         then (let modo_calc = (if modo_comp s = Periodo_anterior then ''dias'' else ''anio'');
                   p = periodo_anterior (df_full s) (rango s) modo_calc
               in s\<lparr>prev_df := Some p,
                    prev_tot := Series_sum (map Ventas p),
                    prev_avg := Series_mean (map Ventas p),
                    prev_cnt := Num (real (length p))\<rparr>)
         else s\<lparr>prev_tot := NaN, prev_avg := NaN, prev_cnt := NaN\<rparr>)"

text \<open>The three cards: the change of each figure against its figure of the comparable period.\<close>

definition kpi_pcts :: "session \<Rightarrow> (py_error + pyval) list" where
  "kpi_pcts s =
     map (\<lambda>(valor, prev). delta_pct valor prev)
       [(tot s, prev_tot s), (avg s, prev_avg s), (Num (of_int (cnt s)), prev_cnt s)]"

section \<open>A small session\<close>

text \<open>
  Six rows and a selection to run the script on: the range 2024-06-01 to 2024-06-10, the
  regions Sur and Norte, the categories Ropa and Hogar. The rows are dated 2024-06-05,
  2024-05-25, 2024-06-07, 2024-05-30, 2024-06-05 and 2023-06-05. The variables the
  script has not yet bound hold \<^verbatim>\<open>None\<close>.
\<close>

definition ejemplo_df_full :: dataframe where
  "ejemplo_df_full =
     [\<lparr>Fecha = 739042, Categoria = ''Ropa'', Region = ''Sur'', Ventas = 100\<rparr>,
      \<lparr>Fecha = 739031, Categoria = ''Alimentos'', Region = ''Oeste'', Ventas = 20\<rparr>,
      \<lparr>Fecha = 739044, Categoria = ''Hogar'', Region = ''Norte'', Ventas = 50\<rparr>,
      \<lparr>Fecha = 739036, Categoria = ''Ropa'', Region = ''Sur'', Ventas = 80.5\<rparr>,
      \<lparr>Fecha = 739042, Categoria = ''Ropa'', Region = ''Este'', Ventas = 30\<rparr>,
      \<lparr>Fecha = 738676, Categoria = ''Hogar'', Region = ''Este'', Ventas = 40\<rparr>]"

definition ejemplo :: "modo_comparacion \<Rightarrow> session" where
  "ejemplo modo =
     \<lparr>df_full = ejemplo_df_full,
      rango = (\<lparr>year = 2024, month = 6, day = 1\<rparr>, \<lparr>year = 2024, month = 6, day = 10\<rparr>),
      regiones = [''Sur'', ''Norte''], categorias = [''Ropa'', ''Hogar''],
      modo_comp = modo, df = [], tot = PyNone, avg = PyNone, cnt = 0,
      prev_df = None, prev_tot = PyNone, prev_avg = PyNone, prev_cnt = PyNone\<rparr>"

section \<open>The calendar conversions\<close>

lemma month_cases:
  assumes "1 \<le> (m::int)" "m \<le> 12"
  obtains "m = 1" | "m = 2" | "m = 3" | "m = 4" | "m = 5" | "m = 6"
    | "m = 7" | "m = 8" | "m = 9" | "m = 10" | "m = 11" | "m = 12"
proof -
  have "m = 1 \<or> m = 2 \<or> m = 3 \<or> m = 4 \<or> m = 5 \<or> m = 6
    \<or> m = 7 \<or> m = 8 \<or> m = 9 \<or> m = 10 \<or> m = 11 \<or> m = 12"
    using assms by presburger
  then show thesis using that by blast
qed

lemma divmod_int_unique:
  fixes x q b r :: int
  assumes "x = b * q + r" "0 \<le> r" "r < b"
  shows "x div b = q" and "x mod b = r"
  using assms int_div_pos_eq [of x b q r] int_mod_pos_eq [of x b q r] by simp_all

lemma div32_two:
  assumes "32 * q \<le> (x::int)" "x < 32 * q + 64"
  shows "x div 32 = q \<or> x div 32 = q + 1"
proof (cases "x < 32 * q + 32")
  case True
  have "x div 32 = q"
    by (rule divmod_int_unique [where r = "x - 32 * q"]) (use assms True in simp_all)
  then show ?thesis ..
next
  case False
  have "x div 32 = q + 1"
    by (rule divmod_int_unique [where r = "x - 32 * (q + 1)"]) (use assms False in simp_all)
  then show ?thesis ..
qed

text \<open>The day of the year, counted from 0, of day \<open>d\<close> of month \<open>m\<close>.\<close>

lemma month_estimate:
  assumes "1 \<le> m" "m \<le> 12" "1 \<le> d"
    and "d \<le> (if m = 2 \<and> L then 29 else DAYS_IN_MONTH ! nat (m - 1))"
    and "n = DAYS_BEFORE_MONTH ! nat (m - 1) + (if m > 2 \<and> L then 1 else 0) + d - 1"
  shows "(n + 50) div 32 = m \<or> (n + 50) div 32 = m + 1"
proof (rule div32_two)
  show "32 * m \<le> n + 50"
    by (rule month_cases [OF assms(1,2)]; cases L;
      use assms(3-5) in \<open>simp add: DAYS_BEFORE_MONTH_def DAYS_IN_MONTH_def\<close>)
  show "n + 50 < 32 * m + 64"
    by (rule month_cases [OF assms(1,2)]; cases L;
      use assms(3-5) in \<open>simp add: DAYS_BEFORE_MONTH_def DAYS_IN_MONTH_def\<close>)
qed

lemma month_estimate_le:
  assumes "1 \<le> m" "m \<le> 12" "1 \<le> d"
    and "d \<le> (if m = 2 \<and> L then 29 else DAYS_IN_MONTH ! nat (m - 1))"
    and "n = DAYS_BEFORE_MONTH ! nat (m - 1) + (if m > 2 \<and> L then 1 else 0) + d - 1"
  shows "(n + 50) div 32 \<le> 12"
proof -
  have "n + 50 < 416"
    by (rule month_cases [OF assms(1,2)]; cases L;
      use assms(3-5) in \<open>simp add: DAYS_BEFORE_MONTH_def DAYS_IN_MONTH_def\<close>)
  then show ?thesis by presburger
qed

lemma find_month_day_correct:
  assumes "1 \<le> m" "m \<le> 12" "1 \<le> d"
    and "d \<le> (if m = 2 \<and> L then 29 else DAYS_IN_MONTH ! nat (m - 1))"
    and "n = DAYS_BEFORE_MONTH ! nat (m - 1) + (if m > 2 \<and> L then 1 else 0) + d - 1"
  shows "find_month_day L n = (m, d)"
proof -
  define q where "q = (n + 50) div 32"
  have q: "q = m \<or> q = m + 1"
    unfolding q_def by (rule month_estimate [OF assms])
  have q12: "q \<le> 12"
    unfolding q_def by (rule month_estimate_le [OF assms])
  show ?thesis
    unfolding find_month_day_def Let_def q_def [symmetric]
    by (rule month_cases [OF assms(1,2)]; cases L;
        use q q12 assms(3-5) in \<open>auto simp add: DAYS_BEFORE_MONTH_def DAYS_IN_MONTH_def\<close>)
qed

text \<open>
  The day number minus one, written in the cycles of 400, 100 and 4 years, decides what
  \<open>ord2ymd\<close> returns: the last day of a leap year is the one case the divisions by 365
  and 36524 overshoot.
\<close>

lemma ord2ymd_regular:
  assumes n0: "n0 - 1 = 146097 * a + 36524 * b + 1461 * c + 365 * e + k"
    and b: "0 \<le> b" "b \<le> 3" and c: "0 \<le> c" "c \<le> 24"
    and e: "0 \<le> e" "e \<le> 3" and k: "0 \<le> k" "k \<le> 364"
  shows "ord2ymd n0 =
    (case find_month_day (e = 3 \<and> (c \<noteq> 24 \<or> b = 3)) k of
       (m, d) \<Rightarrow> \<lparr>year = 400 * a + 100 * b + 4 * c + e + 1, month = m, day = d\<rparr>)"
proof -
  define r1 where "r1 = 36524 * b + 1461 * c + 365 * e + k"
  define r2 where "r2 = 1461 * c + 365 * e + k"
  define r3 where "r3 = 365 * e + k"
  have s1: "(n0 - 1) div 146097 = a" "(n0 - 1) mod 146097 = r1"
    by (rule divmod_int_unique [where q = a and r = r1]; use assms in \<open>simp add: r1_def\<close>)+
  have s2: "r1 div 36524 = b" "r1 mod 36524 = r2"
    by (rule divmod_int_unique [where q = b and r = r2]; use assms in \<open>simp add: r1_def r2_def\<close>)+
  have s3: "r2 div 1461 = c" "r2 mod 1461 = r3"
    by (rule divmod_int_unique [where q = c and r = r3]; use assms in \<open>simp add: r2_def r3_def\<close>)+
  have s4: "r3 div 365 = e" "r3 mod 365 = k"
    by (rule divmod_int_unique [where q = e and r = k]; use assms in \<open>simp add: r3_def\<close>)+
  show ?thesis
    unfolding ord2ymd_def Let_def s1 s2 s3 s4
    using b e by (simp add: algebra_simps)
qed

lemma ord2ymd_last:
  assumes n0: "n0 - 1 = 146097 * a + 36524 * b + 1461 * c + 1460"
    and b: "0 \<le> b" "b \<le> 3" and c: "0 \<le> c" "c \<le> 24"
    and leap: "c \<noteq> 24 \<or> b = 3"
  shows "ord2ymd n0 = \<lparr>year = 400 * a + 100 * b + 4 * c + 4, month = 12, day = 31\<rparr>"
proof (cases "c = 24")
  case True
  with leap have b3: "b = 3" by simp
  have s1: "(n0 - 1) div 146097 = a" "(n0 - 1) mod 146097 = 146096"
    by (rule divmod_int_unique [where q = a and r = 146096]; use assms True b3 in simp)+
  have s2: "(146096::int) div 36524 = 4" "(146096::int) mod 36524 = 0" by simp_all
  show ?thesis
    unfolding ord2ymd_def Let_def s1 s2 using True b3 by simp
next
  case False
  define r1 where "r1 = 36524 * b + 1461 * c + 1460"
  define r2 where "r2 = 1461 * c + 1460"
  have s1: "(n0 - 1) div 146097 = a" "(n0 - 1) mod 146097 = r1"
    by (rule divmod_int_unique [where q = a and r = r1]; use assms False in \<open>simp add: r1_def\<close>)+
  have s2: "r1 div 36524 = b" "r1 mod 36524 = r2"
    by (rule divmod_int_unique [where q = b and r = r2]; use assms False in \<open>simp add: r1_def r2_def\<close>)+
  have s3: "r2 div 1461 = c" "r2 mod 1461 = 1460"
    by (rule divmod_int_unique [where q = c and r = 1460]; use assms False in \<open>simp add: r2_def\<close>)+
  have s4: "(1460::int) div 365 = 4" "(1460::int) mod 365 = 0" by simp_all
  show ?thesis
    unfolding ord2ymd_def Let_def s1 s2 s3 s4 by simp
qed

lemma year_decomp:
  fixes y :: int
  obtains a b c e where
    "y = 400 * a + 100 * b + 4 * c + e + 1"
    "0 \<le> b" "b \<le> 3" "0 \<le> c" "c \<le> 24" "0 \<le> e" "e \<le> 3"
proof -
  define a where "a = (y - 1) div 400"
  define r where "r = (y - 1) mod 400"
  define b where "b = r div 100"
  define r2 where "r2 = r mod 100"
  define c where "c = r2 div 4"
  define e where "e = r2 mod 4"
  have y: "y - 1 = 400 * a + r" and r: "0 \<le> r" "r < 400"
    by (simp_all add: a_def r_def)
  have r': "r = 100 * b + r2" and r2: "0 \<le> r2" "r2 < 100"
    by (simp_all add: b_def r2_def)
  have r2': "r2 = 4 * c + e" and e: "0 \<le> e" "e < 4"
    by (simp_all add: c_def e_def)
  have "0 \<le> b" "b \<le> 3" "0 \<le> c" "c \<le> 24"
    using r r' r2 r2' e by linarith+
  moreover have "y = 400 * a + 100 * b + 4 * c + e + 1"
    using y r' r2' by linarith
  ultimately show thesis using that e by auto
qed

lemma days_before_year_decomp:
  assumes "y = 400 * a + 100 * b + 4 * c + e + 1"
    "0 \<le> b" "b \<le> 3" "0 \<le> c" "c \<le> 24" "0 \<le> e" "e \<le> 3"
  shows "days_before_year y = 146097 * a + 36524 * b + 1461 * c + 365 * e"
proof -
  have d4: "(y - 1) div 4 = 100 * a + 25 * b + c"
    by (rule divmod_int_unique [where r = e]) (use assms in simp_all)
  have d100: "(y - 1) div 100 = 4 * a + b"
    by (rule divmod_int_unique [where r = "4 * c + e"]) (use assms in simp_all)
  have d400: "(y - 1) div 400 = a"
    by (rule divmod_int_unique [where r = "100 * b + 4 * c + e"]) (use assms in simp_all)
  show ?thesis
    unfolding days_before_year_def Let_def d4 d100 d400 using assms(1) by simp
qed

lemma is_leap_decomp:
  assumes "y = 400 * a + 100 * b + 4 * c + e + 1"
    "0 \<le> b" "b \<le> 3" "0 \<le> c" "c \<le> 24" "0 \<le> e" "e \<le> 3"
  shows "is_leap y \<longleftrightarrow> e = 3 \<and> (c \<noteq> 24 \<or> b = 3)"
proof -
  have m4: "y mod 4 = (if e = 3 then 0 else e + 1)"
    by (rule divmod_int_unique [where q = "100 * a + 25 * b + c + (if e = 3 then 1 else 0)"])
      (use assms in \<open>simp_all split: if_splits\<close>)
  have m100: "y mod 100 = (if e = 3 \<and> c = 24 then 0 else 4 * c + e + 1)"
    by (rule divmod_int_unique [where q = "4 * a + b + (if e = 3 \<and> c = 24 then 1 else 0)"])
      (use assms in \<open>auto split: if_splits\<close>)
  have m400: "y mod 400 = (if e = 3 \<and> c = 24 \<and> b = 3 then 0 else 100 * b + 4 * c + e + 1)"
    by (rule divmod_int_unique [where q = "a + (if e = 3 \<and> c = 24 \<and> b = 3 then 1 else 0)"])
      (use assms in \<open>auto split: if_splits\<close>)
  show ?thesis
    unfolding is_leap_def m4 m100 m400 using assms by auto
qed

lemma day_of_year_bounds:
  assumes "1 \<le> m" "m \<le> 12" "1 \<le> d" "d \<le> days_in_month y m"
  shows "0 \<le> days_before_month y m + d - 1"
    and "days_before_month y m + d - 1 \<le> (if is_leap y then 365 else 364)"
    and "days_before_month y m + d - 1 = 365 \<Longrightarrow> m = 12 \<and> d = 31"
  by (rule month_cases [OF assms(1,2)]; cases "is_leap y";
      use assms(3,4) in \<open>simp add: days_before_month_def days_in_month_def
        DAYS_BEFORE_MONTH_def DAYS_IN_MONTH_def\<close>)+

lemma ord2ymd_ymd2ord:
  assumes "1 \<le> m" "m \<le> 12" "1 \<le> d" "d \<le> days_in_month y m"
  shows "ord2ymd (ymd2ord y m d) = \<lparr>year = y, month = m, day = d\<rparr>"
proof -
  obtain a b c e where dec: "y = 400 * a + 100 * b + 4 * c + e + 1"
    "0 \<le> b" "b \<le> 3" "0 \<le> c" "c \<le> 24" "0 \<le> e" "e \<le> 3"
    by (rule year_decomp)
  define k where "k = days_before_month y m + d - 1"
  note kb = day_of_year_bounds [OF assms, folded k_def]
  have leap: "is_leap y \<longleftrightarrow> e = 3 \<and> (c \<noteq> 24 \<or> b = 3)"
    by (rule is_leap_decomp [OF dec])
  have n0: "ymd2ord y m d - 1 = 146097 * a + 36524 * b + 1461 * c + 365 * e + k"
    unfolding ymd2ord_def days_before_year_decomp [OF dec] k_def by simp
  show ?thesis
  proof (cases "k = 365")
    case True
    then have md: "m = 12" "d = 31" using kb(3) by simp_all
    from True kb(2) have L: "is_leap y" by (simp split: if_splits)
    with leap have e3: "e = 3" and cb: "c \<noteq> 24 \<or> b = 3" by simp_all
    have "ymd2ord y m d - 1 = 146097 * a + 36524 * b + 1461 * c + 1460"
      using n0 True e3 by simp
    from ord2ymd_last [OF this dec(2-5) cb] show ?thesis
      using dec(1) e3 md by simp
  next
    case False
    with kb(2) have k364: "k \<le> 364" by (simp split: if_splits)
    have fm: "find_month_day (e = 3 \<and> (c \<noteq> 24 \<or> b = 3)) k = (m, d)"
      unfolding leap [symmetric]
      by (rule find_month_day_correct [OF assms(1-3)])
        (use assms(4) in \<open>simp_all add: days_in_month_def k_def days_before_month_def\<close>)
    show ?thesis
      unfolding ord2ymd_regular [OF n0 dec(2-7) kb(1) k364] fm using dec(1) by simp
  qed
qed

lemma dt_date_to_datetime:
  assumes "valid_date dt"
  shows "dt_date (to_datetime dt) = dt"
  using assms ord2ymd_ymd2ord [of "month dt" "day dt" "year dt"]
  by (simp add: dt_date_def to_datetime_def valid_date_def)

text \<open>Later dates have later day numbers.\<close>

lemma days_before_year_Suc:
  "days_before_year (y + 1) = days_before_year y + (if is_leap y then 366 else 365)"
proof -
  obtain a b c e where dec: "y = 400 * a + 100 * b + 4 * c + e + 1"
    "0 \<le> b" "b \<le> 3" "0 \<le> c" "c \<le> 24" "0 \<le> e" "e \<le> 3"
    by (rule year_decomp)
  note leap = is_leap_decomp [OF dec]
  note dby = days_before_year_decomp [OF dec]
  consider (plain) "e < 3" | (four) "e = 3" "c < 24" | (cent) "e = 3" "c = 24" "b < 3"
    | (quad) "e = 3" "c = 24" "b = 3"
    using dec by linarith
  then show ?thesis
  proof cases
    case plain
    have "days_before_year (y + 1) = 146097 * a + 36524 * b + 1461 * c + 365 * (e + 1)"
      by (rule days_before_year_decomp) (use dec plain in simp_all)
    then show ?thesis using plain leap dby by simp
  next
    case four
    have "days_before_year (y + 1) = 146097 * a + 36524 * b + 1461 * (c + 1) + 365 * 0"
      by (rule days_before_year_decomp) (use dec four in simp_all)
    then show ?thesis using four leap dby by simp
  next
    case cent
    have "days_before_year (y + 1) = 146097 * a + 36524 * (b + 1) + 1461 * 0 + 365 * 0"
      by (rule days_before_year_decomp) (use dec cent in simp_all)
    then show ?thesis using cent leap dby by simp
  next
    case quad
    have "days_before_year (y + 1) = 146097 * (a + 1) + 36524 * 0 + 1461 * 0 + 365 * 0"
      by (rule days_before_year_decomp) (use dec quad in simp_all)
    then show ?thesis using quad leap dby by simp
  qed
qed

lemma days_before_year_mono:
  assumes "y \<le> y'"
  shows "days_before_year y \<le> days_before_year y'"
  using assms
proof (induction y' rule: int_ge_induct)
  case base
  show ?case by simp
next
  case (step i)
  then show ?case by (simp add: days_before_year_Suc)
qed

lemma days_before_month_step:
  assumes "1 \<le> m" "m < m'" "m' \<le> 12"
  shows "days_before_month y m + days_in_month y m \<le> days_before_month y m'"
proof -
  have m: "m \<le> 12" and m': "1 \<le> m'" using assms by simp_all
  show ?thesis
    by (rule month_cases [OF assms(1) m]; rule month_cases [OF m' assms(3)];
        use assms(2) in \<open>simp add: days_before_month_def days_in_month_def
          DAYS_BEFORE_MONTH_def DAYS_IN_MONTH_def\<close>)
qed

lemma to_datetime_strict_mono:
  assumes "valid_date a" "valid_date b" "date_lt a b"
  shows "to_datetime a < to_datetime b"
proof -
  from assms(1) have a: "1 \<le> month a" "month a \<le> 12" "1 \<le> day a"
    "day a \<le> days_in_month (year a) (month a)" by (simp_all add: valid_date_def)
  from assms(2) have b: "1 \<le> month b" "month b \<le> 12" "1 \<le> day b"
    "day b \<le> days_in_month (year b) (month b)" by (simp_all add: valid_date_def)
  consider (y) "year a < year b" | (m) "year a = year b" "month a < month b"
    | (d) "year a = year b" "month a = month b" "day a < day b"
    using assms(3) by (auto simp: date_lt_def)
  then show ?thesis
  proof cases
    case y
    have "to_datetime a \<le> days_before_year (year a) + (if is_leap (year a) then 365 else 364) + 1"
      using day_of_year_bounds(2) [OF a] by (simp add: to_datetime_def ymd2ord_def)
    also have "\<dots> = days_before_year (year a + 1)"
      by (simp add: days_before_year_Suc)
    also have "\<dots> \<le> days_before_year (year b)"
      by (rule days_before_year_mono) (use y in simp)
    also have "\<dots> < to_datetime b"
      using day_of_year_bounds(1) [OF b] by (simp add: to_datetime_def ymd2ord_def)
    finally show ?thesis .
  next
    case m
    have "days_before_month (year a) (month a) + day a
        \<le> days_before_month (year a) (month a) + days_in_month (year a) (month a)"
      using a(4) by simp
    also have "\<dots> \<le> days_before_month (year b) (month b)"
      using days_before_month_step [OF a(1) m(2) b(2), of "year a"] m(1) by simp
    also have "\<dots> < days_before_month (year b) (month b) + day b"
      using b(3) by simp
    finally show ?thesis using m(1) by (simp add: to_datetime_def ymd2ord_def)
  next
    case d
    then show ?thesis by (simp add: to_datetime_def ymd2ord_def)
  qed
qed

lemma date_le_iff: "date_le a b \<longleftrightarrow> date_lt a b \<or> a = b"
  by (cases a; cases b) (auto simp: date_le_def date_lt_def)

lemma date_lt_total: "date_lt a b \<or> a = b \<or> date_lt b a"
  by (cases a; cases b) (auto simp: date_lt_def)

lemma to_datetime_mono:
  assumes "valid_date a" "valid_date b" "date_le a b"
  shows "to_datetime a \<le> to_datetime b"
  using assms to_datetime_strict_mono [of a b] by (auto simp: date_le_iff)

lemma date_le_trans: "date_le a b \<Longrightarrow> date_le b c \<Longrightarrow> date_le a c"
  by (auto simp: date_le_def)

lemma date_lt_not_le: "date_lt b a \<Longrightarrow> \<not> date_le a b"
  by (auto simp: date_le_def date_lt_def)

section \<open>Formatting\<close>

lemma nat_digits_small: "n < 10 \<Longrightarrow> nat_digits n = [digit_chr n]"
  by (simp add: nat_digits.simps [of n])

lemma nat_digits_large:
  "10 \<le> n \<Longrightarrow> nat_digits n = nat_digits (n div 10) @ [digit_chr (n mod 10)]"
  by (simp add: nat_digits.simps [of n])

lemma group3_short: "length ds \<le> 3 \<Longrightarrow> group3 sep ds = ds"
  by (simp add: group3.simps [of sep ds])

lemma group3_long:
  "3 < length ds \<Longrightarrow>
     group3 sep ds = group3 sep (take (length ds - 3) ds) @ sep # drop (length ds - 3) ds"
  by (simp add: group3.simps [of sep ds])

lemma digit_chr_in: "d < 10 \<Longrightarrow> digit_chr d \<in> set ''0123456789''"
  unfolding digit_chr_def by (rule nth_mem) simp

lemma nat_digits_chars: "set (nat_digits n) \<subseteq> set ''0123456789''"
proof (induction n rule: nat_digits.induct)
  case (1 n)
  show ?case
  proof (cases "n < 10")
    case True
    then show ?thesis using digit_chr_in [of n] by (simp add: nat_digits_small)
  next
    case False
    then have "set (nat_digits (n div 10)) \<subseteq> set ''0123456789''" by (rule "1.IH")
    moreover have "digit_chr (n mod 10) \<in> set ''0123456789''" by (rule digit_chr_in) simp
    ultimately show ?thesis using False by (simp add: nat_digits_large)
  qed
qed

lemma map_group3:
  assumes "\<And>c. c \<in> set ds \<Longrightarrow> f c = c"
  shows "map f (group3 sep ds) = group3 (f sep) ds"
  using assms
proof (induction sep ds rule: group3.induct)
  case (1 sep ds)
  show ?case
  proof (cases "length ds \<le> 3")
    case True
    then show ?thesis using "1.prems" by (simp add: group3_short map_idI)
  next
    case False
    have "map f (group3 sep (take (length ds - 3) ds)) = group3 (f sep) (take (length ds - 3) ds)"
      by (rule "1.IH" [OF False]) (auto dest: in_set_takeD intro: "1.prems")
    moreover have "map f (drop (length ds - 3) ds) = drop (length ds - 3) ds"
      by (rule map_idI) (auto dest: in_set_dropD intro: "1.prems")
    ultimately show ?thesis using False by (simp add: group3_long)
  qed
qed

lemma set_group3: "set (group3 sep ds) \<subseteq> insert sep (set ds)"
proof (induction sep ds rule: group3.induct)
  case (1 sep ds)
  show ?case
  proof (cases "length ds \<le> 3")
    case True
    then show ?thesis by (auto simp add: group3_short)
  next
    case False
    from "1.IH" [OF False] show ?thesis using False
      by (auto simp add: group3_long dest: in_set_takeD in_set_dropD)
  qed
qed

lemma set_zero_pad: "set (zero_pad w ds) \<subseteq> insert CHR ''0'' (set ds)"
  by (auto simp: zero_pad_def)

lemma X_not_digit: "CHR ''X'' \<notin> set (nat_digits n)"
  using nat_digits_chars [of n] by auto

lemma X_not_in_py_format: "CHR ''X'' \<notin> set (py_format dec x)"
proof -
  have g: "CHR ''X'' \<notin> set (group3 CHR '','' (nat_digits n))" for n
    using set_group3 [of "CHR '',''" "nat_digits n"] X_not_digit [of n] by auto
  have z: "CHR ''X'' \<notin> set (zero_pad dec (nat_digits n))" for n
    using set_zero_pad [of dec "nat_digits n"] X_not_digit [of n] by auto
  show ?thesis
    unfolding py_format_def format_f_def Let_def by (simp add: g z)
qed

lemma replace_chain:
  assumes "CHR ''X'' \<notin> set s"
  shows "replace CHR ''X'' CHR ''.'' (replace CHR ''.'' CHR '','' (replace CHR '','' CHR ''X'' s))
    = map (\<lambda>c. if c = CHR '','' then CHR ''.'' else if c = CHR ''.'' then CHR '','' else c) s"
  using assms by (induction s) (auto simp: replace_def)

lemma swap_py_format:
  "map (\<lambda>c. if c = CHR '','' then CHR ''.'' else if c = CHR ''.'' then CHR '','' else c)
     (py_format dec x) = format_f CHR ''.'' CHR '','' dec x"
proof -
  let ?f = "\<lambda>c. if c = CHR '','' then CHR ''.'' else if c = CHR ''.'' then CHR '','' else c"
  have d: "?f c = c" if "c \<in> set (nat_digits n)" for c n
    using that nat_digits_chars [of n] by auto
  have g: "map ?f (group3 CHR '','' (nat_digits n)) = group3 CHR ''.'' (nat_digits n)" for n
    using map_group3 [of "nat_digits n" ?f "CHR '',''"] d by simp
  have z: "map ?f (zero_pad dec (nat_digits n)) = zero_pad dec (nat_digits n)" for n
    unfolding zero_pad_def using d [of _ n] by (simp add: map_idI)
  show ?thesis
    unfolding py_format_def format_f_def Let_def by (simp add: g z)
qed

lemma fmt_moneda_Num:
  "fmt_moneda (Num x) dec = ''$'' @ format_f CHR ''.'' CHR '','' dec x"
proof -
  have "CHR ''X'' \<notin> set (py_format dec x)"
    by (rule X_not_in_py_format)
  then show ?thesis
    by (simp add: fmt_moneda_def replace_chain swap_py_format)
qed

lemma ex_moneda: "format_f CHR ''.'' CHR '','' 2 1234.5 = ''1.234,50''"
proof -
  have sc: "rint 123450 = 123450"
    by (simp add: rint_def Let_def)
  have nd: "nat_digits 1234 = ''1234''" "nat_digits 50 = ''50''"
    by (simp_all add: nat_digits_small nat_digits_large digit_chr_def)
  have g3: "group3 c ''1234'' = [CHR ''1'', c] @ ''234''" for c
    by (simp add: group3_short group3_long)
  show ?thesis
    by (simp add: format_f_def sc nd g3 zero_pad_def Let_def)
qed

section \<open>Aggregates\<close>

lemma rint_nonneg: "0 \<le> x \<Longrightarrow> 0 \<le> rint x"
  by (simp add: rint_def Let_def)

lemma round2_nonneg: "0 \<le> x \<Longrightarrow> 0 \<le> round2 x"
  by (simp add: round2_def rint_nonneg)

lemma get_data_nonneg:
  assumes "\<forall>g\<in>set gammas. 0 \<le> g" "r \<in> set (get_data fechas cats regs gammas)"
  shows "0 \<le> Ventas r"
proof -
  from assms(2) obtain f c rg g where
    r: "r = \<lparr>Fecha = f, Categoria = c, Region = rg, Ventas = round2 g\<rparr>"
    and z: "(f, c, rg, g) \<in> set (zip fechas (zip cats (zip regs gammas)))"
    by (auto simp: get_data_def)
  from z have "g \<in> set gammas"
    by (meson set_zip_rightD)
  with assms(1) show ?thesis by (simp add: r round2_nonneg)
qed

lemma sum_list_Ventas_nonneg:
  assumes "\<And>r. r \<in> set rows \<Longrightarrow> 0 \<le> Ventas r"
  shows "0 \<le> sum_list (map Ventas rows)"
  by (rule sum_list_nonneg) (use assms in auto)

lemma set_filtrar: "set (filtrar ds rg regs cats) \<subseteq> set ds"
  by (auto simp: filtrar_def)


lemma kpis_comparacion_current:
  "tot (kpis_comparacion s) = Series_sum (map Ventas (df s))"
  "avg (kpis_comparacion s) = Series_mean (map Ventas (df s))"
  "cnt (kpis_comparacion s) = int (length (df s))"
  "df (kpis_comparacion s) = df s"
  by (simp_all add: kpis_comparacion_def Let_def)

section \<open>The small session, evaluated\<close>

lemma ejemplo_fechas:
  "dt_date 739042 = \<lparr>year = 2024, month = 6, day = 5\<rparr>"
  "dt_date 739031 = \<lparr>year = 2024, month = 5, day = 25\<rparr>"
  "dt_date 739044 = \<lparr>year = 2024, month = 6, day = 7\<rparr>"
  "dt_date 739036 = \<lparr>year = 2024, month = 5, day = 30\<rparr>"
  "dt_date 738676 = \<lparr>year = 2023, month = 6, day = 5\<rparr>"
  "dt_date 739038 = \<lparr>year = 2024, month = 6, day = 1\<rparr>"
  "dt_date 739047 = \<lparr>year = 2024, month = 6, day = 10\<rparr>"
  by (simp_all add: dt_date_def ord2ymd_def find_month_day_def DAYS_BEFORE_MONTH_def
      DAYS_IN_MONTH_def Let_def)

lemma ejemplo_rango:
  "to_datetime \<lparr>year = 2024, month = 6, day = 1\<rparr> = 739038"
  "to_datetime \<lparr>year = 2024, month = 6, day = 10\<rparr> = 739047"
  "to_datetime \<lparr>year = 2023, month = 6, day = 1\<rparr> = 738672"
  "to_datetime \<lparr>year = 2023, month = 6, day = 10\<rparr> = 738681"
  by (simp_all add: to_datetime_def ymd2ord_def days_before_year_def days_before_month_def
      is_leap_def DAYS_BEFORE_MONTH_def Let_def)

lemma ejemplo_valid:
  "valid_date \<lparr>year = 2024, month = 6, day = 1\<rparr>"
  "valid_date \<lparr>year = 2024, month = 6, day = 10\<rparr>"
  by (simp_all add: valid_date_def days_in_month_def DAYS_IN_MONTH_def)

lemma ejemplo_df:
  "df (filtrado_principal (ejemplo modo)) =
     [\<lparr>Fecha = 739042, Categoria = ''Ropa'', Region = ''Sur'', Ventas = 100\<rparr>,
      \<lparr>Fecha = 739044, Categoria = ''Hogar'', Region = ''Norte'', Ventas = 50\<rparr>]"
  by (simp add: filtrado_principal_def filtrar_def ejemplo_def ejemplo_df_full_def
      ejemplo_fechas date_le_def)

lemma ejemplo_ventana_dias:
  "periodo_anterior_rango (rango (ejemplo modo)) ''dias'' = (739028, 739037)"
  by (simp add: periodo_anterior_rango_def ejemplo_def ejemplo_rango sub_Timedelta_days_def
      Let_def)

lemma days_in_month_2023_6: "days_in_month 2023 6 = 30"
  by (simp add: days_in_month_def DAYS_IN_MONTH_def)

lemma ejemplo_ventana_anio:
  "periodo_anterior_rango (rango (ejemplo modo)) ''anio'' = (738672, 738681)"
  by (simp add: periodo_anterior_rango_def ejemplo_def ejemplo_rango sub_DateOffset_years_def
      ejemplo_fechas days_in_month_2023_6 Let_def)

lemma ejemplo_prev_dias:
  "periodo_anterior ejemplo_df_full (rango (ejemplo modo)) ''dias'' =
     [\<lparr>Fecha = 739031, Categoria = ''Alimentos'', Region = ''Oeste'', Ventas = 20\<rparr>,
      \<lparr>Fecha = 739036, Categoria = ''Ropa'', Region = ''Sur'', Ventas = 80.5\<rparr>]"
  by (simp add: periodo_anterior_def ejemplo_ventana_dias ejemplo_df_full_def)

lemma ejemplo_prev_anio:
  "periodo_anterior ejemplo_df_full (rango (ejemplo modo)) ''anio'' =
     [\<lparr>Fecha = 738676, Categoria = ''Hogar'', Region = ''Este'', Ventas = 40\<rparr>]"
  by (simp add: periodo_anterior_def ejemplo_ventana_anio ejemplo_df_full_def)

lemma ejemplo_fields:
  "df_full (ejemplo modo) = ejemplo_df_full"
  "modo_comp (ejemplo modo) = modo"
  "regiones (ejemplo modo) = [''Sur'', ''Norte'']"
  "categorias (ejemplo modo) = [''Ropa'', ''Hogar'']"
  "rango (ejemplo modo) = (\<lparr>year = 2024, month = 6, day = 1\<rparr>, \<lparr>year = 2024, month = 6, day = 10\<rparr>)"
  by (simp_all add: ejemplo_def)

lemma filtrado_principal_fields:
  "df_full (filtrado_principal s) = df_full s"
  "rango (filtrado_principal s) = rango s"
  "modo_comp (filtrado_principal s) = modo_comp s"
  by (simp_all add: filtrado_principal_def)

section \<open>The claims\<close>

text \<open>
  C1. In the mode \<^verbatim>\<open>dias\<close> the comparable period ends the day before the current range
  starts and spans as many days as the current range: for a range whose start is not
  after its end, the last day is the start minus one day, the first day is the last
  minus the number of days less one, both periods have the same number of days (at least
  one), the comparable period is well formed, lies wholly before the start and touches
  it, and \<^verbatim>\<open>periodo_anterior\<close> selects the rows of that period. For 2025-06-01 to
  2025-06-10 the comparable period is 2025-05-22 to 2025-05-31.
\<close>

theorem periodo_anterior_dias:
  assumes "valid_date ini" "valid_date fin" "date_le ini fin"
  shows "(case periodo_anterior_rango (ini, fin) ''dias'' of
            (ini_prev, fin_prev) \<Rightarrow>
              fin_prev = to_datetime ini - 1
            \<and> ini_prev = fin_prev - ((to_datetime fin - to_datetime ini + 1) - 1)
            \<and> fin_prev - ini_prev + 1 = to_datetime fin - to_datetime ini + 1
            \<and> 1 \<le> to_datetime fin - to_datetime ini + 1
            \<and> ini_prev \<le> fin_prev
            \<and> fin_prev < to_datetime ini
            \<and> fin_prev + 1 = to_datetime ini
            \<and> periodo_anterior rows (ini, fin) ''dias''
                = filter (\<lambda>r. ini_prev \<le> Fecha r \<and> Fecha r \<le> fin_prev) rows)
       \<and> periodo_anterior_rango
            (\<lparr>year = 2025, month = 6, day = 1\<rparr>, \<lparr>year = 2025, month = 6, day = 10\<rparr>) ''dias''
          = (to_datetime \<lparr>year = 2025, month = 5, day = 22\<rparr>,
             to_datetime \<lparr>year = 2025, month = 5, day = 31\<rparr>)"
proof -
  have le: "to_datetime ini \<le> to_datetime fin"
    by (rule to_datetime_mono [OF assms])
  have ex: "periodo_anterior_rango
            (\<lparr>year = 2025, month = 6, day = 1\<rparr>, \<lparr>year = 2025, month = 6, day = 10\<rparr>) ''dias''
          = (to_datetime \<lparr>year = 2025, month = 5, day = 22\<rparr>,
             to_datetime \<lparr>year = 2025, month = 5, day = 31\<rparr>)"
    by (simp add: periodo_anterior_rango_def sub_Timedelta_days_def to_datetime_def ymd2ord_def
        days_before_year_def days_before_month_def is_leap_def DAYS_BEFORE_MONTH_def Let_def)
  show ?thesis
    using le ex
    by (simp add: periodo_anterior_rango_def periodo_anterior_def sub_Timedelta_days_def Let_def)
qed

theorem periodo_anterior_dias_witness:
  "valid_date \<lparr>year = 2024, month = 2, day = 27\<rparr>
   \<and> valid_date \<lparr>year = 2024, month = 3, day = 2\<rparr>
   \<and> date_le \<lparr>year = 2024, month = 2, day = 27\<rparr> \<lparr>year = 2024, month = 3, day = 2\<rparr>
   \<and> periodo_anterior_rango
        (\<lparr>year = 2024, month = 2, day = 27\<rparr>, \<lparr>year = 2024, month = 3, day = 2\<rparr>) ''dias''
      = (to_datetime \<lparr>year = 2024, month = 2, day = 22\<rparr>,
         to_datetime \<lparr>year = 2024, month = 2, day = 26\<rparr>)
   \<and> periodo_anterior
        [\<lparr>Fecha = to_datetime \<lparr>year = 2024, month = 2, day = 26\<rparr>,
          Categoria = ''Ropa'', Region = ''Sur'', Ventas = 10\<rparr>,
         \<lparr>Fecha = to_datetime \<lparr>year = 2024, month = 2, day = 27\<rparr>,
          Categoria = ''Ropa'', Region = ''Sur'', Ventas = 20\<rparr>]
        (\<lparr>year = 2024, month = 2, day = 27\<rparr>, \<lparr>year = 2024, month = 3, day = 2\<rparr>) ''dias''
      = [\<lparr>Fecha = to_datetime \<lparr>year = 2024, month = 2, day = 26\<rparr>,
          Categoria = ''Ropa'', Region = ''Sur'', Ventas = 10\<rparr>]"
proof -
  let ?a = "\<lparr>year = 2024, month = 2, day = 27\<rparr>"
  let ?b = "\<lparr>year = 2024, month = 3, day = 2\<rparr>"
  have va: "valid_date ?a" and vb: "valid_date ?b"
    by (simp_all add: valid_date_def days_in_month_def is_leap_def DAYS_IN_MONTH_def)
  have le: "date_le ?a ?b" by (simp add: date_le_def)
  have n: "to_datetime ?a = 738943" "to_datetime ?b = 738947"
    "to_datetime \<lparr>year = 2024, month = 2, day = 22\<rparr> = 738938"
    "to_datetime \<lparr>year = 2024, month = 2, day = 26\<rparr> = 738942"
    by (simp_all add: to_datetime_def ymd2ord_def days_before_year_def days_before_month_def
        is_leap_def DAYS_BEFORE_MONTH_def Let_def)
  show ?thesis
    using periodo_anterior_dias [OF va vb le,
        of "[\<lparr>Fecha = to_datetime \<lparr>year = 2024, month = 2, day = 26\<rparr>,
          Categoria = ''Ropa'', Region = ''Sur'', Ventas = 10\<rparr>,
         \<lparr>Fecha = to_datetime \<lparr>year = 2024, month = 2, day = 27\<rparr>,
          Categoria = ''Ropa'', Region = ''Sur'', Ventas = 20\<rparr>]"] va vb le
    by (auto simp add: n split: prod.splits)
qed

text \<open>
  C2. \<^verbatim>\<open>delta_pct\<close> returns NaN when the figure of the comparable period is \<^verbatim>\<open>None\<close>,
  NaN or zero, whatever the current figure is; for two numbers, the second not zero, it
  returns the signed percentage \<open>(actual - pasado) / pasado * 100\<close>, so 10 for 110 against
  100 and -10 for 90 against 100; and it raises no error for any current figure that is
  a number or NaN.
\<close>

theorem delta_pct_spec:
  "(pasado = PyNone \<or> pasado = NaN \<or> pasado = Num 0 \<longrightarrow> delta_pct actual pasado = Inr NaN)
   \<and> (p \<noteq> 0 \<longrightarrow> delta_pct (Num a) (Num p) = Inr (Num ((a - p) / p * 100)))
   \<and> delta_pct (Num 110) (Num 100) = Inr (Num 10)
   \<and> delta_pct (Num 90) (Num 100) = Inr (Num (- 10))
   \<and> (actual \<noteq> PyNone \<longrightarrow> (\<exists>v. delta_pct actual pasado = Inr v))"
proof -
  have guard: "delta_pct actual pasado = Inr NaN"
    if "pasado = PyNone \<or> pasado = NaN \<or> pasado = Num 0"
    using that by (auto simp: delta_pct_def isna_def)
  have pct: "delta_pct (Num a) (Num p) = Inr (Num ((a - p) / p * 100))" if "p \<noteq> 0" for a p
    using that by (simp add: delta_pct_def isna_def then_do_def)
  have total: "\<exists>v. delta_pct actual pasado = Inr v" if "actual \<noteq> PyNone"
  proof (cases "pasado = PyNone \<or> pasado = NaN \<or> pasado = Num 0")
    case True
    then show ?thesis using guard by simp
  next
    case False
    then obtain q where q: "pasado = Num q" "q \<noteq> 0" by (cases pasado) auto
    show ?thesis
    proof (cases actual)
      case PyNone
      with that show ?thesis by simp
    next
      case (Num x)
      then show ?thesis using pct [OF q(2)] q(1) by simp
    next
      case NaN
      then show ?thesis using q by (simp add: delta_pct_def isna_def then_do_def)
    qed
  qed
  show ?thesis using guard pct [of p a] pct [of 100 110] pct [of 100 90] total by simp
qed

theorem delta_pct_spec_witness:
  "delta_pct (Num 50) (Num 0) = Inr NaN
   \<and> delta_pct PyNone PyNone = Inr NaN
   \<and> delta_pct (Num 50) NaN = Inr NaN
   \<and> delta_pct (Num 150) (Num 120) = Inr (Num 25)
   \<and> (\<exists>v. delta_pct NaN (Num 120) = Inr v)"
  using delta_pct_spec [of "Num 0" "Num 50" 120 150]
    delta_pct_spec [of PyNone PyNone 1 1]
    delta_pct_spec [of NaN "Num 50" 1 1]
    delta_pct_spec [of "Num 120" NaN 1 1]
  by simp



text \<open>
  C4. Whenever a comparison is made, the comparable frame is the full frame restricted
  to the comparable period alone: a row of the full frame belongs to it exactly when
  its timestamp lies in that period, whatever its category and region, and another
  selection of categories and regions gives the same comparable frame.
\<close>

theorem comparacion_sin_categoria_region:
  assumes "modo_comp s \<noteq> Sin_comparacion"
  shows "(case periodo_anterior_rango (rango s)
                (if modo_comp s = Periodo_anterior then ''dias'' else ''anio'') of
            (ini_prev, fin_prev) \<Rightarrow>
              prev_df (kpis_comparacion (filtrado_principal s))
                = Some (filter (\<lambda>r. ini_prev \<le> Fecha r \<and> Fecha r \<le> fin_prev) (df_full s))
            \<and> (\<exists>p. prev_df (kpis_comparacion (filtrado_principal s)) = Some p
                 \<and> (r \<in> set p \<longleftrightarrow> r \<in> set (df_full s) \<and> ini_prev \<le> Fecha r \<and> Fecha r \<le> fin_prev)))
       \<and> prev_df (kpis_comparacion (filtrado_principal (s\<lparr>regiones := rs, categorias := cs\<rparr>)))
           = prev_df (kpis_comparacion (filtrado_principal s))"
  using assms
  by (auto simp add: kpis_comparacion_def filtrado_principal_def periodo_anterior_def Let_def
      split: prod.splits)

theorem comparacion_sin_categoria_region_witness:
  "modo_comp (ejemplo Periodo_anterior) \<noteq> Sin_comparacion
   \<and> prev_df (kpis_comparacion (filtrado_principal (ejemplo Periodo_anterior)))
       = Some [\<lparr>Fecha = 739031, Categoria = ''Alimentos'', Region = ''Oeste'', Ventas = 20\<rparr>,
               \<lparr>Fecha = 739036, Categoria = ''Ropa'', Region = ''Sur'', Ventas = 80.5\<rparr>]
   \<and> ''Alimentos'' \<notin> set (categorias (ejemplo Periodo_anterior))
   \<and> ''Oeste'' \<notin> set (regiones (ejemplo Periodo_anterior))"
proof -
  have m: "modo_comp (ejemplo Periodo_anterior) \<noteq> Sin_comparacion"
    by (simp add: ejemplo_fields)
  have w: "periodo_anterior_rango (rango (ejemplo Periodo_anterior))
      (if modo_comp (ejemplo Periodo_anterior) = Periodo_anterior then ''dias'' else ''anio'')
      = (739028, 739037)"
    by (simp add: ejemplo_fields(2) ejemplo_ventana_dias)
  show ?thesis
    using comparacion_sin_categoria_region [OF m,
        where r = "\<lparr>Fecha = 739031, Categoria = ''Alimentos'', Region = ''Oeste'', Ventas = 20\<rparr>"
          and rs = "[]" and cs = "[]"] m
    unfolding w
    by (simp add: ejemplo_fields ejemplo_df_full_def)
qed

text \<open>
  C5. In the mode \<^verbatim>\<open>anio\<close> each bound of the comparable period is the bound of the
  current range one calendar year earlier: the same month and the same day of the year
  before (the day clipped to the length of that month, which only moves 29 February to
  28 February), and \<^verbatim>\<open>periodo_anterior\<close> returns the rows of the frame it is given whose
  timestamp lies between these two bounds. For 2024-06-01 to 2024-06-10 the comparable
  period is 2023-06-01 to 2023-06-10, whose start lies 366 days, not 365, before the
  current start, and \<^verbatim>\<open>periodo_anterior\<close> returns the rows of those ten days.
\<close>

theorem periodo_anterior_anio:
  assumes "valid_date ini" "valid_date fin"
  shows "periodo_anterior_rango (ini, fin) ''anio'' =
           (to_datetime \<lparr>year = year ini - 1, month = month ini,
                         day = min (day ini) (days_in_month (year ini - 1) (month ini))\<rparr>,
            to_datetime \<lparr>year = year fin - 1, month = month fin,
                         day = min (day fin) (days_in_month (year fin - 1) (month fin))\<rparr>)
       \<and> (day ini \<le> days_in_month (year ini - 1) (month ini) \<longrightarrow>
            fst (periodo_anterior_rango (ini, fin) ''anio'')
              = to_datetime \<lparr>year = year ini - 1, month = month ini, day = day ini\<rparr>)
       \<and> (day fin \<le> days_in_month (year fin - 1) (month fin) \<longrightarrow>
            snd (periodo_anterior_rango (ini, fin) ''anio'')
              = to_datetime \<lparr>year = year fin - 1, month = month fin, day = day fin\<rparr>)
       \<and> periodo_anterior_rango
            (\<lparr>year = 2024, month = 6, day = 1\<rparr>, \<lparr>year = 2024, month = 6, day = 10\<rparr>) ''anio''
          = (to_datetime \<lparr>year = 2023, month = 6, day = 1\<rparr>,
             to_datetime \<lparr>year = 2023, month = 6, day = 10\<rparr>)
       \<and> to_datetime \<lparr>year = 2023, month = 6, day = 1\<rparr>
          = to_datetime \<lparr>year = 2024, month = 6, day = 1\<rparr> - 366
       \<and> periodo_anterior rows (ini, fin) ''anio''
          = filter (\<lambda>r.
                to_datetime \<lparr>year = year ini - 1, month = month ini,
                  day = min (day ini) (days_in_month (year ini - 1) (month ini))\<rparr> \<le> Fecha r
              \<and> Fecha r \<le> to_datetime \<lparr>year = year fin - 1, month = month fin,
                  day = min (day fin) (days_in_month (year fin - 1) (month fin))\<rparr>) rows
       \<and> periodo_anterior rows
            (\<lparr>year = 2024, month = 6, day = 1\<rparr>, \<lparr>year = 2024, month = 6, day = 10\<rparr>) ''anio''
          = filter (\<lambda>r. to_datetime \<lparr>year = 2023, month = 6, day = 1\<rparr> \<le> Fecha r
                      \<and> Fecha r \<le> to_datetime \<lparr>year = 2023, month = 6, day = 10\<rparr>) rows"
proof -
  have gen: "periodo_anterior_rango (a, b) ''anio'' =
           (to_datetime \<lparr>year = year a - 1, month = month a,
                         day = min (day a) (days_in_month (year a - 1) (month a))\<rparr>,
            to_datetime \<lparr>year = year b - 1, month = month b,
                         day = min (day b) (days_in_month (year b - 1) (month b))\<rparr>)"
    if "valid_date a" "valid_date b" for a b
    using that
    by (simp add: periodo_anterior_rango_def sub_DateOffset_years_def dt_date_to_datetime Let_def)
  have ex: "periodo_anterior_rango
            (\<lparr>year = 2024, month = 6, day = 1\<rparr>, \<lparr>year = 2024, month = 6, day = 10\<rparr>) ''anio''
          = (to_datetime \<lparr>year = 2023, month = 6, day = 1\<rparr>,
             to_datetime \<lparr>year = 2023, month = 6, day = 10\<rparr>)"
    using gen [OF ejemplo_valid] by (simp add: days_in_month_2023_6)
  have bounds: "periodo_anterior_rango (ini, fin) ''anio'' =
           (to_datetime \<lparr>year = year ini - 1, month = month ini,
                         day = min (day ini) (days_in_month (year ini - 1) (month ini))\<rparr>,
            to_datetime \<lparr>year = year fin - 1, month = month fin,
                         day = min (day fin) (days_in_month (year fin - 1) (month fin))\<rparr>)"
    by (rule gen [OF assms])
  have rows_gen: "periodo_anterior rows (ini, fin) ''anio''
          = filter (\<lambda>r.
                to_datetime \<lparr>year = year ini - 1, month = month ini,
                  day = min (day ini) (days_in_month (year ini - 1) (month ini))\<rparr> \<le> Fecha r
              \<and> Fecha r \<le> to_datetime \<lparr>year = year fin - 1, month = month fin,
                  day = min (day fin) (days_in_month (year fin - 1) (month fin))\<rparr>) rows"
    unfolding periodo_anterior_def bounds by simp
  have rows_ex: "periodo_anterior rows
            (\<lparr>year = 2024, month = 6, day = 1\<rparr>, \<lparr>year = 2024, month = 6, day = 10\<rparr>) ''anio''
          = filter (\<lambda>r. to_datetime \<lparr>year = 2023, month = 6, day = 1\<rparr> \<le> Fecha r
                      \<and> Fecha r \<le> to_datetime \<lparr>year = 2023, month = 6, day = 10\<rparr>) rows"
    unfolding periodo_anterior_def ex by simp
  have first: "periodo_anterior_rango (ini, fin) ''anio'' =
           (to_datetime \<lparr>year = year ini - 1, month = month ini,
                         day = min (day ini) (days_in_month (year ini - 1) (month ini))\<rparr>,
            to_datetime \<lparr>year = year fin - 1, month = month fin,
                         day = min (day fin) (days_in_month (year fin - 1) (month fin))\<rparr>)
       \<and> (day ini \<le> days_in_month (year ini - 1) (month ini) \<longrightarrow>
            fst (periodo_anterior_rango (ini, fin) ''anio'')
              = to_datetime \<lparr>year = year ini - 1, month = month ini, day = day ini\<rparr>)
       \<and> (day fin \<le> days_in_month (year fin - 1) (month fin) \<longrightarrow>
            snd (periodo_anterior_rango (ini, fin) ''anio'')
              = to_datetime \<lparr>year = year fin - 1, month = month fin, day = day fin\<rparr>)
       \<and> periodo_anterior_rango
            (\<lparr>year = 2024, month = 6, day = 1\<rparr>, \<lparr>year = 2024, month = 6, day = 10\<rparr>) ''anio''
          = (to_datetime \<lparr>year = 2023, month = 6, day = 1\<rparr>,
             to_datetime \<lparr>year = 2023, month = 6, day = 10\<rparr>)
       \<and> to_datetime \<lparr>year = 2023, month = 6, day = 1\<rparr>
          = to_datetime \<lparr>year = 2024, month = 6, day = 1\<rparr> - 366"
    using bounds ex by (simp add: ejemplo_rango min_def)
  from first rows_gen rows_ex show ?thesis by blast
qed

theorem periodo_anterior_anio_witness:
  "valid_date \<lparr>year = 2024, month = 2, day = 29\<rparr>
   \<and> valid_date \<lparr>year = 2024, month = 3, day = 10\<rparr>
   \<and> periodo_anterior_rango
        (\<lparr>year = 2024, month = 2, day = 29\<rparr>, \<lparr>year = 2024, month = 3, day = 10\<rparr>) ''anio''
      = (to_datetime \<lparr>year = 2023, month = 2, day = 28\<rparr>,
         to_datetime \<lparr>year = 2023, month = 3, day = 10\<rparr>)
   \<and> periodo_anterior
        [\<lparr>Fecha = 738578, Categoria = ''Ropa'', Region = ''Sur'', Ventas = 10\<rparr>,
         \<lparr>Fecha = 738579, Categoria = ''Hogar'', Region = ''Este'', Ventas = 20\<rparr>,
         \<lparr>Fecha = 738589, Categoria = ''Ropa'', Region = ''Norte'', Ventas = 30\<rparr>,
         \<lparr>Fecha = 738590, Categoria = ''Hogar'', Region = ''Sur'', Ventas = 40\<rparr>,
         \<lparr>Fecha = 738945, Categoria = ''Ropa'', Region = ''Sur'', Ventas = 50\<rparr>]
        (\<lparr>year = 2024, month = 2, day = 29\<rparr>, \<lparr>year = 2024, month = 3, day = 10\<rparr>) ''anio''
      = [\<lparr>Fecha = 738579, Categoria = ''Hogar'', Region = ''Este'', Ventas = 20\<rparr>,
         \<lparr>Fecha = 738589, Categoria = ''Ropa'', Region = ''Norte'', Ventas = 30\<rparr>]
   \<and> to_datetime \<lparr>year = 2023, month = 2, day = 28\<rparr> = 738579
   \<and> to_datetime \<lparr>year = 2023, month = 3, day = 10\<rparr> = 738589"
proof -
  have v: "valid_date \<lparr>year = 2024, month = 2, day = 29\<rparr>"
    "valid_date \<lparr>year = 2024, month = 3, day = 10\<rparr>"
    by (simp_all add: valid_date_def days_in_month_def is_leap_def DAYS_IN_MONTH_def)
  have d: "days_in_month 2023 2 = 28" "days_in_month 2023 3 = 31"
    by (simp_all add: days_in_month_def is_leap_def DAYS_IN_MONTH_def)
  have n: "to_datetime \<lparr>year = 2023, month = 2, day = 28\<rparr> = 738579"
    "to_datetime \<lparr>year = 2023, month = 3, day = 10\<rparr> = 738589"
    by (simp_all add: to_datetime_def ymd2ord_def days_before_year_def days_before_month_def
        is_leap_def DAYS_BEFORE_MONTH_def Let_def)
  show ?thesis
    using periodo_anterior_anio [OF v,
        of "[\<lparr>Fecha = 738578, Categoria = ''Ropa'', Region = ''Sur'', Ventas = 10\<rparr>,
         \<lparr>Fecha = 738579, Categoria = ''Hogar'', Region = ''Este'', Ventas = 20\<rparr>,
         \<lparr>Fecha = 738589, Categoria = ''Ropa'', Region = ''Norte'', Ventas = 30\<rparr>,
         \<lparr>Fecha = 738590, Categoria = ''Hogar'', Region = ''Sur'', Ventas = 40\<rparr>,
         \<lparr>Fecha = 738945, Categoria = ''Ropa'', Region = ''Sur'', Ventas = 50\<rparr>]"] v
    by (simp add: d n)
qed

text \<open>
  C6. For every filtered frame the total is the sum of its amounts, the count is its
  number of rows, and the mean is the total divided by the count when there is a row and
  NaN when there is none. The count is never negative; and when the rows come from a
  frame that \<^verbatim>\<open>get_data\<close> built from gamma variates none of which is negative (as the
  filtered frame of such a frame does), the total is not negative.
\<close>

theorem metricas_spec:
  "tot (kpis_comparacion s) = Num (sum_list (map Ventas (df s)))
   \<and> cnt (kpis_comparacion s) = int (length (df s))
   \<and> avg (kpis_comparacion s) =
        (if cnt (kpis_comparacion s) > 0
         then Num (sum_list (map Ventas (df s)) / real_of_int (cnt (kpis_comparacion s)))
         else NaN)
   \<and> 0 \<le> cnt (kpis_comparacion s)
   \<and> ((\<forall>g\<in>set gammas. 0 \<le> g) \<and> set (df s) \<subseteq> set (get_data fechas cats regs gammas)
        \<longrightarrow> (\<exists>t. tot (kpis_comparacion s) = Num t \<and> 0 \<le> t))
   \<and> ((\<forall>g\<in>set gammas. 0 \<le> g) \<and> df_full s = get_data fechas cats regs gammas
        \<longrightarrow> (\<exists>t. tot (kpis_comparacion (filtrado_principal s)) = Num t \<and> 0 \<le> t))"
proof -
  have nonneg: "0 \<le> sum_list (map Ventas rows)"
    if "\<forall>g\<in>set gammas. 0 \<le> g" "set rows \<subseteq> set (get_data fechas cats regs gammas)" for rows
    by (rule sum_list_Ventas_nonneg) (use that get_data_nonneg in blast)
  have sub: "set (df (filtrado_principal s)) \<subseteq> set (get_data fechas cats regs gammas)"
    if "df_full s = get_data fechas cats regs gammas"
    using that set_filtrar [of "df_full s" "rango s" "regiones s" "categorias s"]
    by (simp add: filtrado_principal_def)
  have avg: "avg (kpis_comparacion s) =
        (if cnt (kpis_comparacion s) > 0
         then Num (sum_list (map Ventas (df s)) / real_of_int (cnt (kpis_comparacion s)))
         else NaN)"
    by (simp add: kpis_comparacion_current Series_mean_def)
  show ?thesis
    using nonneg [of "df s"] nonneg [OF _ sub] avg
    by (simp add: kpis_comparacion_current Series_sum_def)
qed

theorem metricas_spec_witness:
  "tot (kpis_comparacion (filtrado_principal (ejemplo Sin_comparacion))) = Num 150
   \<and> cnt (kpis_comparacion (filtrado_principal (ejemplo Sin_comparacion))) = 2
   \<and> avg (kpis_comparacion (filtrado_principal (ejemplo Sin_comparacion))) = Num 75
   \<and> df_full (ejemplo Sin_comparacion) =
       get_data [739042, 739031, 739044, 739036, 739042, 738676]
         [''Ropa'', ''Alimentos'', ''Hogar'', ''Ropa'', ''Ropa'', ''Hogar'']
         [''Sur'', ''Oeste'', ''Norte'', ''Sur'', ''Este'', ''Este'']
         [100, 20, 50, 80.5, 30, 40]
   \<and> (\<exists>t. tot (kpis_comparacion (filtrado_principal (ejemplo Sin_comparacion))) = Num t \<and> 0 \<le> t)"
proof -
  have r: "round2 100 = 100" "round2 20 = 20" "round2 50 = 50" "round2 (161 / 2) = 161 / 2"
    "round2 30 = 30" "round2 40 = 40"
    unfolding round2_def rint_def Let_def by simp_all
  have g: "df_full (ejemplo Sin_comparacion) =
       get_data [739042, 739031, 739044, 739036, 739042, 738676]
         [''Ropa'', ''Alimentos'', ''Hogar'', ''Ropa'', ''Ropa'', ''Hogar'']
         [''Sur'', ''Oeste'', ''Norte'', ''Sur'', ''Este'', ''Este'']
         [100, 20, 50, 80.5, 30, 40]"
    by (simp add: ejemplo_fields ejemplo_df_full_def get_data_def r)
  have p: "\<forall>g\<in>set [100, 20, 50, 80.5, 30, 40 :: real]. 0 \<le> g" by simp
  show ?thesis
    using metricas_spec [of "filtrado_principal (ejemplo Sin_comparacion)"
        "[100, 20, 50, 80.5, 30, 40]" "[739042, 739031, 739044, 739036, 739042, 738676]"
        "[''Ropa'', ''Alimentos'', ''Hogar'', ''Ropa'', ''Ropa'', ''Hogar'']"
        "[''Sur'', ''Oeste'', ''Norte'', ''Sur'', ''Este'', ''Este'']"]
      metricas_spec [of "ejemplo Sin_comparacion"
        "[100, 20, 50, 80.5, 30, 40]" "[739042, 739031, 739044, 739036, 739042, 738676]"
        "[''Ropa'', ''Alimentos'', ''Hogar'', ''Ropa'', ''Ropa'', ''Hogar'']"
        "[''Sur'', ''Oeste'', ''Norte'', ''Sur'', ''Este'', ''Este'']"] g p
    by (simp add: ejemplo_df)
qed

text \<open>
  C7. A range whose start is after its end selects no row: the filtered frame is empty,
  the total is 0, the count is 0 and the mean is NaN. The two steps are total functions,
  so the figures are there for every such range.
\<close>

theorem rango_invertido:
  assumes "date_lt (snd (rango s)) (fst (rango s))"
  shows "df (filtrado_principal s) = []
       \<and> tot (kpis_comparacion (filtrado_principal s)) = Num 0
       \<and> cnt (kpis_comparacion (filtrado_principal s)) = 0
       \<and> avg (kpis_comparacion (filtrado_principal s)) = NaN"
proof -
  have "\<not> (date_le (fst (rango s)) d \<and> date_le d (snd (rango s)))" for d
    using assms date_le_trans [of "fst (rango s)" d "snd (rango s)"] date_lt_not_le by blast
  then have "df (filtrado_principal s) = []"
    by (auto simp add: filtrado_principal_def filtrar_def filter_empty_conv)
  then show ?thesis
    by (simp add: kpis_comparacion_current Series_sum_def Series_mean_def)
qed

theorem rango_invertido_witness:
  "date_lt \<lparr>year = 2024, month = 6, day = 1\<rparr> \<lparr>year = 2024, month = 6, day = 10\<rparr>
   \<and> df (filtrado_principal
        ((ejemplo Periodo_anterior)
           \<lparr>rango := (\<lparr>year = 2024, month = 6, day = 10\<rparr>, \<lparr>year = 2024, month = 6, day = 1\<rparr>)\<rparr>)) = []
   \<and> avg (kpis_comparacion (filtrado_principal
        ((ejemplo Periodo_anterior)
           \<lparr>rango := (\<lparr>year = 2024, month = 6, day = 10\<rparr>, \<lparr>year = 2024, month = 6, day = 1\<rparr>)\<rparr>))) = NaN
   \<and> df_full ((ejemplo Periodo_anterior)
           \<lparr>rango := (\<lparr>year = 2024, month = 6, day = 10\<rparr>, \<lparr>year = 2024, month = 6, day = 1\<rparr>)\<rparr>)
       = ejemplo_df_full"
proof -
  have lt: "date_lt \<lparr>year = 2024, month = 6, day = 1\<rparr> \<lparr>year = 2024, month = 6, day = 10\<rparr>"
    by (simp add: date_lt_def)
  show ?thesis
    using rango_invertido [of "(ejemplo Periodo_anterior)
           \<lparr>rango := (\<lparr>year = 2024, month = 6, day = 10\<rparr>, \<lparr>year = 2024, month = 6, day = 1\<rparr>)\<rparr>"] lt
    by (simp add: ejemplo_fields)
qed

text \<open>
  C8. Filtering is idempotent: filtering the filtered frame again with the same range,
  regions and categories gives the filtered frame, also when the script's step is run on
  a session whose full frame is the filtered one.
\<close>

theorem filtrar_idempotente:
  "filtrar (filtrar rows rg regs cats) rg regs cats = filtrar rows rg regs cats
   \<and> df (filtrado_principal (s\<lparr>df_full := df (filtrado_principal s)\<rparr>)) = df (filtrado_principal s)"
  by (simp add: filtrado_principal_def filtrar_def)

theorem filtrar_idempotente_witness:
  "filtrar (df (filtrado_principal (ejemplo Periodo_anterior)))
       (\<lparr>year = 2024, month = 6, day = 1\<rparr>, \<lparr>year = 2024, month = 6, day = 10\<rparr>)
       [''Sur'', ''Norte''] [''Ropa'', ''Hogar'']
     = [\<lparr>Fecha = 739042, Categoria = ''Ropa'', Region = ''Sur'', Ventas = 100\<rparr>,
        \<lparr>Fecha = 739044, Categoria = ''Hogar'', Region = ''Norte'', Ventas = 50\<rparr>]"
proof -
  have "df (filtrado_principal (ejemplo Periodo_anterior)) =
      filtrar ejemplo_df_full
        (\<lparr>year = 2024, month = 6, day = 1\<rparr>, \<lparr>year = 2024, month = 6, day = 10\<rparr>)
        [''Sur'', ''Norte''] [''Ropa'', ''Hogar'']"
    by (simp add: filtrado_principal_def ejemplo_fields)
  then show ?thesis
    using filtrar_idempotente [of ejemplo_df_full
        "(\<lparr>year = 2024, month = 6, day = 1\<rparr>, \<lparr>year = 2024, month = 6, day = 10\<rparr>)"
        "[''Sur'', ''Norte'']" "[''Ropa'', ''Hogar'']" "ejemplo Periodo_anterior"]
      ejemplo_df [of Periodo_anterior]
    by simp
qed

text \<open>
  C9. For a number \<^verbatim>\<open>fmt_moneda\<close> writes the dollar sign and then the number as Python
  formats it, with the point between the groups of three digits and the comma before
  the decimals: 1234.50 with two decimals is \<^verbatim>\<open>$1.234,50\<close>. For NaN and for \<^verbatim>\<open>None\<close> it
  writes the em dash.
\<close>

theorem fmt_moneda_spec:
  "fmt_moneda (Num x) dec = ''$'' @ format_f CHR ''.'' CHR '','' dec x
   \<and> fmt_moneda (Num 1234.5) 2 = ''$1.234,50''
   \<and> fmt_moneda NaN dec = em_dash
   \<and> fmt_moneda PyNone dec = em_dash"
proof -
  have "fmt_moneda (Num 1234.5) 2 = ''$1.234,50''"
    unfolding fmt_moneda_Num ex_moneda by simp
  moreover have "fmt_moneda NaN dec = em_dash" "fmt_moneda PyNone dec = em_dash"
    by (simp_all add: fmt_moneda_def)
  ultimately show ?thesis
    using fmt_moneda_Num [of x dec] by blast
qed

theorem fmt_moneda_spec_witness:
  "fmt_moneda (Num 5000) 0 = ''$5.000''
   \<and> fmt_moneda NaN 2 = [CHR 0xE2, CHR 0x80, CHR 0x94]"
proof -
  have sc: "rint 5000 = 5000"
    by (simp add: rint_def Let_def)
  have nd: "nat_digits 5000 = ''5000''"
    by (simp add: nat_digits_small nat_digits_large digit_chr_def)
  have g3: "group3 CHR ''.'' ''5000'' = ''5.000''"
    by (simp add: group3_short group3_long)
  have "format_f CHR ''.'' CHR '','' 0 5000 = ''5.000''"
    by (simp add: format_f_def sc nd g3 Let_def)
  then show ?thesis
    using fmt_moneda_spec [of 5000 0] fmt_moneda_spec [of 0 2] by (simp add: em_dash_def)
qed

text \<open>
  C10. A current figure that is NaN (the mean of no rows) against a comparable figure
  that is a number other than zero gives NaN, not an error and not a percentage; and
  without comparison the three comparable figures are NaN, so each of the three changes
  is NaN.
\<close>

theorem delta_pct_nan_propagates:
  "(p \<noteq> 0 \<longrightarrow> delta_pct NaN (Num p) = Inr NaN)
   \<and> (modo_comp s = Sin_comparacion \<longrightarrow>
        prev_tot (kpis_comparacion s) = NaN
      \<and> prev_avg (kpis_comparacion s) = NaN
      \<and> prev_cnt (kpis_comparacion s) = NaN
      \<and> kpi_pcts (kpis_comparacion s) = [Inr NaN, Inr NaN, Inr NaN])"
  by (simp add: delta_pct_def isna_def then_do_def kpis_comparacion_def kpi_pcts_def Let_def)

theorem delta_pct_nan_propagates_witness:
  "delta_pct NaN (Num 250) = Inr NaN
   \<and> kpi_pcts (kpis_comparacion
        \<lparr>df_full = [], rango = (\<lparr>year = 2024, month = 1, day = 1\<rparr>, \<lparr>year = 2024, month = 1, day = 2\<rparr>),
         regiones = [], categorias = [], modo_comp = Sin_comparacion,
         df = [\<lparr>Fecha = 738890, Categoria = ''Ropa'', Region = ''Sur'', Ventas = 10\<rparr>],
         tot = PyNone, avg = PyNone, cnt = 0, prev_df = None,
         prev_tot = PyNone, prev_avg = PyNone, prev_cnt = PyNone\<rparr>)
      = [Inr NaN, Inr NaN, Inr NaN]"
  using delta_pct_nan_propagates [of 250
        "\<lparr>df_full = [], rango = (\<lparr>year = 2024, month = 1, day = 1\<rparr>, \<lparr>year = 2024, month = 1, day = 2\<rparr>),
         regiones = [], categorias = [], modo_comp = Sin_comparacion,
         df = [\<lparr>Fecha = 738890, Categoria = ''Ropa'', Region = ''Sur'', Ventas = 10\<rparr>],
         tot = PyNone, avg = PyNone, cnt = 0, prev_df = None,
         prev_tot = PyNone, prev_avg = PyNone, prev_cnt = PyNone\<rparr>"]
  by simp

end
